theory Spec2Isabelle
  imports Main "HOL-Library.Multiset"
begin

section \<open>JSON values and HTTP responses\<close>

text \<open>
  Every handler of \<^verbatim>\<open>app.js\<close> ends in \<^verbatim>\<open>res.status(n).json(v)\<close>. A response is the
  status code together with the JSON value sent; object members keep the order in which
  the source writes them.
\<close>

datatype json = JNum int | JStr string | JArr "json list" | JObj "(string \<times> json) list"

record response =
  status :: nat
  body :: json

definition error_json :: "string \<Rightarrow> json" where
  "error_json msg = JObj [(''error'', JStr msg)]"

definition status_json :: "string \<Rightarrow> json" where
  "status_json s = JObj [(''status'', JStr s)]"

section \<open>The relational store\<close>

text \<open>
  The two Sequelize models. \<^verbatim>\<open>Post\<close> has the columns \<^verbatim>\<open>id\<close>, \<^verbatim>\<open>post_str_id\<close>, \<^verbatim>\<open>content\<close>;
  \<^verbatim>\<open>Like\<close> has \<^verbatim>\<open>id\<close>, \<^verbatim>\<open>user_id_str\<close> and the foreign key \<^verbatim>\<open>PostId\<close> that
  \<^verbatim>\<open>Like.belongsTo(Post)\<close> adds. The two \<^verbatim>\<open>id\<close> columns are named \<open>post_id\<close> and
  \<open>like_id\<close> here. The timestamp columns are wall-clock values that no handler reads;
  they are left out.

  A table is the list of its rows in insertion order. Both primary keys are
  auto-incremented: a new row gets the successor of the largest key handed out so far,
  which the store remembers per table (\<open>posts_seq\<close>, \<open>likes_seq\<close>), so a key is not
  reused after a delete.
\<close>

record post =
  post_id :: nat
  post_str_id :: string
  content :: string

record like =
  like_id :: nat
  user_id_str :: string
  PostId :: nat

record db =
  posts :: "post list"
  likes :: "like list"
  posts_seq :: nat
  likes_seq :: nat

text \<open>The store after \<^verbatim>\<open>sequelize.sync()\<close> on a fresh in-memory database.\<close>

definition empty_db :: db where
  "empty_db = \<lparr>posts = [], likes = [], posts_seq = 0, likes_seq = 0\<rparr>"

subsection \<open>The queries the handlers issue\<close>

text \<open>\<^verbatim>\<open>Post.findOne({ where: { post_str_id } })\<close>: the first matching row, or null.\<close>

definition Post_findOne :: "db \<Rightarrow> string \<Rightarrow> post option" where
  "Post_findOne d s = find (\<lambda>p. post_str_id p = s) (posts d)"

text \<open>
  \<^verbatim>\<open>Post.findOrCreate({ where: { post_str_id }, defaults: { content } })\<close>: the existing row
  and \<^verbatim>\<open>false\<close>, or a freshly inserted row and \<^verbatim>\<open>true\<close>. An existing row is returned as it
  is; the defaults are used for an insert only.
\<close>

definition Post_findOrCreate :: "db \<Rightarrow> string \<Rightarrow> string \<Rightarrow> post \<times> bool \<times> db" where
  "Post_findOrCreate d s c =
     (case Post_findOne d s of
        Some p \<Rightarrow> (p, False, d)
      | None \<Rightarrow>
          (let p = \<lparr>post_id = Suc (posts_seq d), post_str_id = s, content = c\<rparr>
           in (p, True, d\<lparr>posts := posts d @ [p], posts_seq := Suc (posts_seq d)\<rparr>)))"

text \<open>The \<^verbatim>\<open>where\<close> clause \<^verbatim>\<open>{ user_id_str, PostId }\<close> shared by like and unlike.\<close>

definition like_matches :: "string \<Rightarrow> nat \<Rightarrow> like \<Rightarrow> bool" where
  "like_matches u pid l \<longleftrightarrow> user_id_str l = u \<and> PostId l = pid"

text \<open>\<^verbatim>\<open>Like.findOrCreate({ where: { user_id_str, PostId } })\<close>.\<close>

definition Like_findOrCreate :: "db \<Rightarrow> string \<Rightarrow> nat \<Rightarrow> like \<times> bool \<times> db" where
  "Like_findOrCreate d u pid =
     (case find (like_matches u pid) (likes d) of
        Some l \<Rightarrow> (l, False, d)
      | None \<Rightarrow>
          (let l = \<lparr>like_id = Suc (likes_seq d), user_id_str = u, PostId = pid\<rparr>
           in (l, True, d\<lparr>likes := likes d @ [l], likes_seq := Suc (likes_seq d)\<rparr>)))"

text \<open>
  \<^verbatim>\<open>Like.destroy({ where: { user_id_str, PostId } })\<close>: deletes every matching row and
  returns how many there were.
\<close>

definition Like_destroy :: "db \<Rightarrow> string \<Rightarrow> nat \<Rightarrow> nat \<times> db" where
  "Like_destroy d u pid =
     (length (filter (like_matches u pid) (likes d)),
      d\<lparr>likes := filter (\<lambda>l. \<not> like_matches u pid l) (likes d)\<rparr>)"

text \<open>\<^verbatim>\<open>post.countLikes()\<close>: the number of like rows whose foreign key is this post.\<close>

definition Post_countLikes :: "db \<Rightarrow> post \<Rightarrow> nat" where
  "Post_countLikes d p = length (filter (\<lambda>l. PostId l = post_id p) (likes d))"

text \<open>
  The ranking query of \<^verbatim>\<open>GET /posts/top\<close>. An \<^verbatim>\<open>include\<close> without \<^verbatim>\<open>required\<close> is a
  left outer join, so every post forms a group, and \<^verbatim>\<open>COUNT(Likes.id)\<close> counts the joined
  like rows of the group (none for a post without likes). The groups are ordered by
  descending count; the source names no second key, and the model keeps posts of equal
  count in table order. \<^verbatim>\<open>LIMIT n\<close> keeps the first \<open>n\<close> rows, and all rows when \<open>n\<close> is
  negative, as SQLite does.
\<close>

definition like_counts :: "db \<Rightarrow> (post \<times> nat) list" where
  "like_counts d = map (\<lambda>p. (p, Post_countLikes d p)) (posts d)"

definition order_by_like_count_desc :: "(post \<times> nat) list \<Rightarrow> (post \<times> nat) list" where
  "order_by_like_count_desc rows = sort_key (\<lambda>r. - int (snd r)) rows"

definition sql_limit :: "int \<Rightarrow> 'a list \<Rightarrow> 'a list" where
  "sql_limit n rows = (if n < 0 then rows else take (nat n) rows)"

definition Post_findAll_top :: "db \<Rightarrow> int \<Rightarrow> (post \<times> nat) list" where
  "Post_findAll_top d limit = sql_limit limit (order_by_like_count_desc (like_counts d))"

text \<open>
  \<^verbatim>\<open>Like.findAll({ where: { user_id_str }, include: [Post] })\<close>: the like rows of the user,
  each joined to the post its foreign key names (null when no such post exists). The
  source asks for no ordering, so the order of the rows is whatever access path the store
  takes; it is the parameter \<open>sc\<close>, applied to the matching rows in table order.
\<close>

type_synonym scan = "like list \<Rightarrow> like list"

definition owning_post :: "db \<Rightarrow> like \<Rightarrow> post option" where
  "owning_post d l = find (\<lambda>p. post_id p = PostId l) (posts d)"

definition likes_of_user :: "db \<Rightarrow> string \<Rightarrow> like list" where
  "likes_of_user d u = filter (\<lambda>l. user_id_str l = u) (likes d)"

definition Like_findAll :: "scan \<Rightarrow> db \<Rightarrow> string \<Rightarrow> (like \<times> post option) list" where
  "Like_findAll sc d u = map (\<lambda>l. (l, owning_post d l)) (sc (likes_of_user d u))"


definition index_scan :: scan where
  "index_scan rows = sort_key PostId rows"

section \<open>JavaScript values used by the handlers\<close>

text \<open>
  A body field or query parameter is absent (\<^verbatim>\<open>undefined\<close>) or a string. The presence
  checks \<^verbatim>\<open>!post_str_id\<close>, \<^verbatim>\<open>!content\<close> and \<^verbatim>\<open>!user_id_str\<close> are true for \<^verbatim>\<open>undefined\<close>
  and for the empty string.
\<close>

fun falsy :: "string option \<Rightarrow> bool" where
  "falsy None = True"
| "falsy (Some s) = (s = [])"

text \<open>
  \<^verbatim>\<open>parseInt(s, 10)\<close>: leading white space is skipped, one sign is read, then the longest
  run of decimal digits; anything after it is ignored. Without a digit the result is
  \<^verbatim>\<open>NaN\<close>, here \<open>None\<close>. \<^verbatim>\<open>parseInt(undefined, 10)\<close> parses the text \<^verbatim>\<open>undefined\<close> and is
  \<^verbatim>\<open>NaN\<close> as well. Integers are unbounded here; the rounding of a JavaScript number
  beyond \<open>2^53\<close> is not modelled.
\<close>

definition StrWhiteSpaceChar :: "char \<Rightarrow> bool" where
  "StrWhiteSpaceChar c \<longleftrightarrow>
     c \<in> set [CHR 0x09, CHR 0x0A, CHR 0x0B, CHR 0x0C, CHR 0x0D, CHR 0x20, CHR 0xA0]"

definition is_digit :: "char \<Rightarrow> bool" where
  "is_digit c \<longleftrightarrow> 48 \<le> (of_char c :: nat) \<and> (of_char c :: nat) \<le> 57"

definition digit_value :: "char \<Rightarrow> nat" where
  "digit_value c = of_char c - 48"

definition decimal_value :: "string \<Rightarrow> nat" where
  "decimal_value ds = foldl (\<lambda>n c. 10 * n + digit_value c) 0 ds"

fun strip_sign :: "string \<Rightarrow> int \<times> string" where
  "strip_sign [] = (1, [])"
| "strip_sign (c # cs) =
     (if c = CHR ''-'' then (- 1, cs) else if c = CHR ''+'' then (1, cs) else (1, c # cs))"

definition parseInt :: "string option \<Rightarrow> int option" where
  "parseInt v =
     (case v of
        None \<Rightarrow> None
      | Some s \<Rightarrow>
          (case strip_sign (dropWhile StrWhiteSpaceChar s) of
             (sign, rest) \<Rightarrow>
               (let ds = takeWhile is_digit rest
                in if ds = [] then None else Some (sign * int (decimal_value ds)))))"

text \<open>
  \<^verbatim>\<open>parseInt(req.query.limit, 10) || 5\<close>: \<^verbatim>\<open>NaN\<close> and \<open>0\<close> are the falsy numbers, so both
  give 5; every other parsed integer, negative ones too, is kept.
\<close>

definition top_limit :: "string option \<Rightarrow> int" where
  "top_limit q = (case parseInt q of None \<Rightarrow> 5 | Some n \<Rightarrow> if n = 0 then 5 else n)"

section \<open>The six handlers\<close>

text \<open>
  A handler takes the store and the parts of the request it reads, and returns the
  response, the store afterwards and the store calls it awaited, in order. The queries
  of the model are total, so the \<^verbatim>\<open>catch\<close> branch of a handler (status 500) is reached
  only where the handler's own code throws: reading \<^verbatim>\<open>post_str_id\<close> of a null \<^verbatim>\<open>like.Post\<close>.
\<close>

datatype store_call =
  Call_Post_findOrCreate | Call_Post_findOne | Call_Like_findOrCreate
  | Call_countLikes | Call_Like_destroy | Call_Post_findAll | Call_Like_findAll

record outcome =
  reply :: response
  db_after :: db
  accesses :: "store_call list"

definition respond :: "nat \<Rightarrow> json \<Rightarrow> db \<Rightarrow> store_call list \<Rightarrow> outcome" where
  "respond code v d calls = \<lparr>reply = \<lparr>status = code, body = v\<rparr>, db_after = d, accesses = calls\<rparr>"

text \<open>\<^verbatim>\<open>POST /posts\<close> with the body fields \<^verbatim>\<open>post_str_id\<close> and \<^verbatim>\<open>content\<close>.\<close>

definition post_posts :: "db \<Rightarrow> string option \<Rightarrow> string option \<Rightarrow> outcome" where
  "post_posts d f_post_str_id f_content =
     (if falsy f_post_str_id \<or> falsy f_content
      then respond 400 (error_json ''Invalid input'') d []
      else
        (case Post_findOrCreate d (the f_post_str_id) (the f_content) of
           (p, created, d') \<Rightarrow>
             if \<not> created
             then respond 409 (error_json ''Post with this ID already exists'') d'
                    [Call_Post_findOrCreate]
             else respond 201
                    (JObj [(''internal_db_id'', JNum (int (post_id p))),
                           (''post_str_id'', JStr (post_str_id p)),
                           (''status'', JStr ''created'')])
                    d' [Call_Post_findOrCreate]))"

text \<open>\<^verbatim>\<open>POST /posts/:post_str_id/like\<close> with the body field \<^verbatim>\<open>user_id_str\<close>.\<close>

definition post_like :: "db \<Rightarrow> string \<Rightarrow> string option \<Rightarrow> outcome" where
  "post_like d param f_user_id_str =
     (case Post_findOne d param of
        None \<Rightarrow> respond 404 (error_json ''Post not found'') d [Call_Post_findOne]
      | Some p \<Rightarrow>
          if falsy f_user_id_str
          then respond 400 (error_json ''User ID is required'') d [Call_Post_findOne]
          else
            (case Like_findOrCreate d (the f_user_id_str) (post_id p) of
               (l, created, d') \<Rightarrow>
                 if \<not> created
                 then respond 200 (status_json ''already_liked'') d'
                        [Call_Post_findOne, Call_Like_findOrCreate]
                 else respond 201 (status_json ''liked'') d'
                        [Call_Post_findOne, Call_Like_findOrCreate]))"

text \<open>\<^verbatim>\<open>GET /posts/:post_str_id/likes\<close>.\<close>

definition get_likes :: "db \<Rightarrow> string \<Rightarrow> outcome" where
  "get_likes d param =
     (case Post_findOne d param of
        None \<Rightarrow> respond 404 (error_json ''Post not found'') d [Call_Post_findOne]
      | Some p \<Rightarrow>
          respond 200
            (JObj [(''post_str_id'', JStr (post_str_id p)),
                   (''like_count'', JNum (int (Post_countLikes d p)))])
            d [Call_Post_findOne, Call_countLikes])"

text \<open>\<^verbatim>\<open>DELETE /posts/:post_str_id/like\<close> with the body field \<^verbatim>\<open>user_id_str\<close>.\<close>

definition delete_like :: "db \<Rightarrow> string \<Rightarrow> string option \<Rightarrow> outcome" where
  "delete_like d param f_user_id_str =
     (case Post_findOne d param of
        None \<Rightarrow> respond 404 (error_json ''Post not found'') d [Call_Post_findOne]
      | Some p \<Rightarrow>
          if falsy f_user_id_str
          then respond 400 (error_json ''User ID is required'') d [Call_Post_findOne]
          else
            (case Like_destroy d (the f_user_id_str) (post_id p) of
               (deletedCount, d') \<Rightarrow>
                 if deletedCount = 0
                 then respond 200 (status_json ''not_liked_previously'') d'
                        [Call_Post_findOne, Call_Like_destroy]
                 else respond 200 (status_json ''unliked'') d'
                        [Call_Post_findOne, Call_Like_destroy]))"

text \<open>
  \<^verbatim>\<open>GET /posts/top\<close> with the query parameter \<^verbatim>\<open>limit\<close>. The limit is computed before
  the \<^verbatim>\<open>try\<close> block. \<^verbatim>\<open>parseInt(post.dataValues.like_count, 10)\<close> of the count the store
  returns is that count.
\<close>

definition top_entry :: "post \<times> nat \<Rightarrow> json" where
  "top_entry r = JObj [(''post_str_id'', JStr (post_str_id (fst r))),
                       (''like_count'', JNum (int (snd r)))]"

definition get_top :: "db \<Rightarrow> string option \<Rightarrow> outcome" where
  "get_top d q_limit =
     (let limit = top_limit q_limit;
          topPosts = Post_findAll_top d limit
      in respond 200 (JArr (map top_entry topPosts)) d [Call_Post_findAll])"

text \<open>
  \<^verbatim>\<open>GET /users/:user_id_str/liked-posts\<close>. \<^verbatim>\<open>like.Post.post_str_id\<close> throws a TypeError
  when the joined post is null; the handler's \<^verbatim>\<open>catch\<close> turns it into status 500 with
  the engine's message under \<^verbatim>\<open>details\<close>.
\<close>

fun likedPostIds :: "(like \<times> post option) list \<Rightarrow> string list option" where
  "likedPostIds [] = Some []"
| "likedPostIds ((l, None) # rows) = None"
| "likedPostIds ((l, Some p) # rows) =
     (case likedPostIds rows of None \<Rightarrow> None | Some ids \<Rightarrow> Some (post_str_id p # ids))"

definition null_deref_message :: string where
  "null_deref_message = ''Cannot read properties of null (reading 'post_str_id')''"

definition get_liked_posts :: "scan \<Rightarrow> db \<Rightarrow> string \<Rightarrow> outcome" where
  "get_liked_posts sc d param_user =
     (case likedPostIds (Like_findAll sc d param_user) of
        None \<Rightarrow>
          respond 500
            (JObj [(''error'', JStr ''Internal server error''),
                   (''details'', JStr null_deref_message)])
            d [Call_Like_findAll]
      | Some ids \<Rightarrow> respond 200 (JArr (map JStr ids)) d [Call_Like_findAll])"

section \<open>Requests and runs\<close>

text \<open>
  The routes of the application, one constructor per \<^verbatim>\<open>app.post\<close>, \<^verbatim>\<open>app.get\<close> and
  \<^verbatim>\<open>app.delete\<close> registration, and the store after a sequence of requests served one
  after the other.
\<close>

datatype request =
  POST_posts "string option" "string option"
  | POST_like string "string option"
  | GET_likes string
  | DELETE_like string "string option"
  | GET_top "string option"
  | GET_liked_posts string

fun handle :: "scan \<Rightarrow> db \<Rightarrow> request \<Rightarrow> outcome" where
  "handle sc d (POST_posts s c) = post_posts d s c"
| "handle sc d (POST_like ps u) = post_like d ps u"
| "handle sc d (GET_likes ps) = get_likes d ps"
| "handle sc d (DELETE_like ps u) = delete_like d ps u"
| "handle sc d (GET_top q) = get_top d q"
| "handle sc d (GET_liked_posts u) = get_liked_posts sc d u"

fun run :: "scan \<Rightarrow> db \<Rightarrow> request list \<Rightarrow> db" where
  "run sc d [] = d"
| "run sc d (r # rs) = run sc (db_after (handle sc d r)) rs"

section \<open>Constraints of the schema\<close>

text \<open>
  The unique index of the \<^verbatim>\<open>Like\<close> model: no two like rows agree on
  \<^verbatim>\<open>(user_id_str, PostId)\<close>. The foreign key: every like row names a post of the table.
\<close>

definition likes_unique :: "db \<Rightarrow> bool" where
  "likes_unique d \<longleftrightarrow> distinct (map (\<lambda>l. (user_id_str l, PostId l)) (likes d))"

definition fk_ok :: "db \<Rightarrow> bool" where
  "fk_ok d \<longleftrightarrow> set (map PostId (likes d)) \<subseteq> set (map post_id (posts d))"

section \<open>A sample run\<close>


definition sample_db :: db where
  "sample_db =
     \<lparr>posts = [\<lparr>post_id = 1, post_str_id = ''A'', content = ''a''\<rparr>,
               \<lparr>post_id = 2, post_str_id = ''B'', content = ''b''\<rparr>,
               \<lparr>post_id = 3, post_str_id = ''C'', content = ''c''\<rparr>],
      likes = [\<lparr>like_id = 1, user_id_str = ''u'', PostId = 3\<rparr>,
               \<lparr>like_id = 2, user_id_str = ''u'', PostId = 1\<rparr>,
               \<lparr>like_id = 3, user_id_str = ''v'', PostId = 3\<rparr>],
      posts_seq = 3, likes_seq = 3\<rparr>"

section \<open>Facts about the queries\<close>

lemma Post_findOne_str: "Post_findOne d s = Some p \<Longrightarrow> post_str_id p = s \<and> p \<in> set (posts d)"
  unfolding Post_findOne_def by (auto simp: find_Some_iff)

lemma find_snoc:
  "find P (xs @ [x]) = (case find P xs of Some y \<Rightarrow> Some y | None \<Rightarrow> if P x then Some x else None)"
  by (induction xs) auto

lemma Post_findOne_after_insert:
  "Post_findOne d (post_str_id p) = None \<Longrightarrow>
   Post_findOne (d\<lparr>posts := posts d @ [p], posts_seq := n\<rparr>) (post_str_id p) = Some p"
  unfolding Post_findOne_def by (simp add: find_snoc)

lemma Post_findOrCreate_new:
  "Post_findOne d s = None \<Longrightarrow>
   Post_findOrCreate d s c =
     (\<lparr>post_id = Suc (posts_seq d), post_str_id = s, content = c\<rparr>, True,
      d\<lparr>posts := posts d @ [\<lparr>post_id = Suc (posts_seq d), post_str_id = s, content = c\<rparr>],
        posts_seq := Suc (posts_seq d)\<rparr>)"
  by (simp add: Post_findOrCreate_def Let_def)

lemma Post_findOrCreate_old:
  "Post_findOne d s = Some p \<Longrightarrow> Post_findOrCreate d s c = (p, False, d)"
  by (simp add: Post_findOrCreate_def Let_def)

lemma find_None_filter: "find P xs = None \<longleftrightarrow> filter P xs = []"
  by (induction xs) auto

lemma filter_not_id: "filter P xs = [] \<Longrightarrow> filter (\<lambda>x. \<not> P x) xs = xs"
  by (induction xs) (auto split: if_splits)

lemma Like_findOrCreate_new:
  "filter (like_matches u pid) (likes d) = [] \<Longrightarrow>
   Like_findOrCreate d u pid =
     (\<lparr>like_id = Suc (likes_seq d), user_id_str = u, PostId = pid\<rparr>, True,
      d\<lparr>likes := likes d @ [\<lparr>like_id = Suc (likes_seq d), user_id_str = u, PostId = pid\<rparr>],
        likes_seq := Suc (likes_seq d)\<rparr>)"
  using find_None_filter [of "like_matches u pid" "likes d"]
  by (simp add: Like_findOrCreate_def Let_def)

lemma Like_findOrCreate_old:
  "find (like_matches u pid) (likes d) = Some l \<Longrightarrow> Like_findOrCreate d u pid = (l, False, d)"
  by (simp add: Like_findOrCreate_def)

lemma Post_findOne_likes_update [simp]:
  "Post_findOne (d\<lparr>likes := ls, likes_seq := n\<rparr>) s = Post_findOne d s"
  by (simp add: Post_findOne_def)


lemma sample_findOne_B:
  "Post_findOne sample_db ''B'' = Some \<lparr>post_id = 2, post_str_id = ''B'', content = ''b''\<rparr>"
  by (simp add: Post_findOne_def sample_db_def)

lemma sample_no_like_u_B:
  "filter (like_matches ''u'' (post_id \<lparr>post_id = 2, post_str_id = ''B'', content = ''b''\<rparr>))
     (likes sample_db) = []"
  by (simp add: like_matches_def sample_db_def)

section \<open>Creating a post\<close>

text \<open>
  C1. Creating a post twice with the same \<^verbatim>\<open>post_str_id\<close>: when both fields are present
  and no post has the id yet, the first call answers 201 and the second 409; the second
  call leaves the store as the first one left it, and the row found under the id still
  carries the content of the first call, whatever content the second call sent.
\<close>

theorem create_post_twice:
  assumes "s \<noteq> []" and "c \<noteq> []" and "c' \<noteq> []" and "Post_findOne d s = None"
  defines "first \<equiv> post_posts d (Some s) (Some c)"
  defines "second \<equiv> post_posts (db_after first) (Some s) (Some c')"
  shows "status (reply first) = 201 \<and> status (reply second) = 409
       \<and> db_after second = db_after first
       \<and> Post_findOne (db_after second) s
           = Some \<lparr>post_id = Suc (posts_seq d), post_str_id = s, content = c\<rparr>"
proof -
  let ?p = "\<lparr>post_id = Suc (posts_seq d), post_str_id = s, content = c\<rparr>"
  let ?d1 = "d\<lparr>posts := posts d @ [?p], posts_seq := Suc (posts_seq d)\<rparr>"
  have f: "first = respond 201
             (JObj [(''internal_db_id'', JNum (int (Suc (posts_seq d)))),
                    (''post_str_id'', JStr s), (''status'', JStr ''created'')])
             ?d1 [Call_Post_findOrCreate]"
    using assms(1,2,4) by (simp add: first_def post_posts_def Post_findOrCreate_new)
  have found: "Post_findOne ?d1 s = Some ?p"
    using assms(4) Post_findOne_after_insert [where p = ?p and d = d] by simp
  have s: "second = respond 409 (error_json ''Post with this ID already exists'') ?d1
             [Call_Post_findOrCreate]"
    using assms(1,3) found
    by (simp add: second_def f respond_def post_posts_def Post_findOrCreate_old)
  show ?thesis using f s found by (simp add: respond_def)
qed

theorem create_post_twice_witness:
  "status (reply (post_posts empty_db (Some ''p1'') (Some ''hello''))) = 201
   \<and> status (reply (post_posts (db_after (post_posts empty_db (Some ''p1'') (Some ''hello'')))
         (Some ''p1'') (Some ''other''))) = 409
   \<and> db_after (post_posts (db_after (post_posts empty_db (Some ''p1'') (Some ''hello'')))
         (Some ''p1'') (Some ''other''))
       = db_after (post_posts empty_db (Some ''p1'') (Some ''hello''))
   \<and> Post_findOne (db_after (post_posts (db_after (post_posts empty_db (Some ''p1'') (Some ''hello'')))
         (Some ''p1'') (Some ''other''))) ''p1''
       = Some \<lparr>post_id = 1, post_str_id = ''p1'', content = ''hello''\<rparr>"
proof -
  have h: "Post_findOne empty_db ''p1'' = None"
    by (simp add: Post_findOne_def empty_db_def)
  have e: "posts_seq empty_db = 0"
    by (simp add: empty_db_def)
  show ?thesis
    using create_post_twice [OF _ _ _ h, of "''hello''" "''other''"] by (auto simp: e)
qed

section \<open>Missing body fields\<close>




section \<open>Liking and unliking\<close>

text \<open>
  C3. Liking the same (user, post) pair twice: for an existing post and a user id that is
  present and has no like on the post yet, the first call answers 201 with status
  \<^verbatim>\<open>liked\<close>, the second 200 with status \<^verbatim>\<open>already_liked\<close>; the second call leaves the store
  as the first one left it, the store then holds exactly one like row for the pair, and
  the count endpoint reports one like more than the post had before (1 for a post that
  had none).
\<close>

theorem like_twice:
  assumes "Post_findOne d ps = Some p" and "u \<noteq> []"
    and "filter (like_matches u (post_id p)) (likes d) = []"
  defines "first \<equiv> post_like d ps (Some u)"
  defines "second \<equiv> post_like (db_after first) ps (Some u)"
  shows "reply first = \<lparr>status = 201, body = status_json ''liked''\<rparr>
       \<and> reply second = \<lparr>status = 200, body = status_json ''already_liked''\<rparr>
       \<and> db_after second = db_after first
       \<and> length (filter (like_matches u (post_id p)) (likes (db_after second))) = 1
       \<and> reply (get_likes (db_after second) ps)
           = \<lparr>status = 200,
              body = JObj [(''post_str_id'', JStr ps),
                           (''like_count'', JNum (int (Post_countLikes d p) + 1))]\<rparr>"
proof -
  let ?l = "\<lparr>like_id = Suc (likes_seq d), user_id_str = u, PostId = post_id p\<rparr>"
  let ?d1 = "d\<lparr>likes := likes d @ [?l], likes_seq := Suc (likes_seq d)\<rparr>"
  have f: "first = respond 201 (status_json ''liked'') ?d1 [Call_Post_findOne, Call_Like_findOrCreate]"
    using assms(1,2,3) by (simp add: first_def post_like_def Like_findOrCreate_new)
  have found: "find (like_matches u (post_id p)) (likes ?d1) = Some ?l"
    using assms(3) by (simp add: find_snoc find_None_filter [symmetric] like_matches_def)
  have s: "second = respond 200 (status_json ''already_liked'') ?d1
             [Call_Post_findOne, Call_Like_findOrCreate]"
    using assms(1,2) Like_findOrCreate_old [OF found]
    by (simp add: second_def f respond_def post_like_def)
  have one: "length (filter (like_matches u (post_id p)) (likes ?d1)) = 1"
    using assms(3) by (simp add: like_matches_def)
  have cnt: "Post_countLikes ?d1 p = Suc (Post_countLikes d p)"
    by (simp add: Post_countLikes_def)
  have str: "post_str_id p = ps"
    using assms(1) Post_findOne_str by blast
  have g: "reply (get_likes ?d1 ps)
           = \<lparr>status = 200,
              body = JObj [(''post_str_id'', JStr ps),
                           (''like_count'', JNum (int (Post_countLikes d p) + 1))]\<rparr>"
    using assms(1) cnt str by (simp add: get_likes_def respond_def)
  show ?thesis using f s one g by (simp add: respond_def)
qed

theorem like_twice_witness:
  "reply (post_like sample_db ''B'' (Some ''u'')) = \<lparr>status = 201, body = status_json ''liked''\<rparr>
   \<and> reply (post_like (db_after (post_like sample_db ''B'' (Some ''u''))) ''B'' (Some ''u''))
       = \<lparr>status = 200, body = status_json ''already_liked''\<rparr>
   \<and> reply (get_likes
         (db_after (post_like (db_after (post_like sample_db ''B'' (Some ''u''))) ''B'' (Some ''u'')))
         ''B'')
       = \<lparr>status = 200, body = JObj [(''post_str_id'', JStr ''B''), (''like_count'', JNum 1)]\<rparr>"
proof -
  have c: "Post_countLikes sample_db \<lparr>post_id = 2, post_str_id = ''B'', content = ''b''\<rparr> = 0"
    by (simp add: Post_countLikes_def sample_db_def)
  show ?thesis
    using like_twice [OF sample_findOne_B _ sample_no_like_u_B] by (auto simp: c)
qed

text \<open>
  C4. Unliking without a like: for an existing post and a user id that is present and has
  no like on the post, the unlike handler answers 200 with status
  \<^verbatim>\<open>not_liked_previously\<close> and the store afterwards is the store before, so every like
  count is unchanged.
\<close>

theorem unlike_without_like:
  assumes "Post_findOne d ps = Some p" and "u \<noteq> []"
    and "filter (like_matches u (post_id p)) (likes d) = []"
  shows "delete_like d ps (Some u)
           = respond 200 (status_json ''not_liked_previously'') d
               [Call_Post_findOne, Call_Like_destroy]"
  using assms by (simp add: delete_like_def Like_destroy_def filter_not_id)

theorem unlike_without_like_witness:
  "delete_like sample_db ''B'' (Some ''u'')
     = respond 200 (status_json ''not_liked_previously'') sample_db
         [Call_Post_findOne, Call_Like_destroy]"
  using unlike_without_like [OF sample_findOne_B _ sample_no_like_u_B] by simp

section \<open>The ranking\<close>



lemma Post_findAll_top_length:
  "length (Post_findAll_top d n) =
     (if n < 0 then length (posts d) else min (nat n) (length (posts d)))"
  by (simp add: Post_findAll_top_def sql_limit_def order_by_like_count_desc_def like_counts_def
      min.commute)


lemma parseInt_zero: "parseInt (Some ''0'') = Some 0"
  by (simp add: parseInt_def StrWhiteSpaceChar_def is_digit_def decimal_value_def digit_value_def)







text \<open>
  C10. A \<^verbatim>\<open>limit\<close> parameter that parses to 0 gives the effective limit 5: the answer is
  the answer to a request without the parameter, with up to 5 entries, one per post.
\<close>

theorem limit_zero_is_default:
  assumes "parseInt q = Some 0"
  shows "top_limit q = 5 \<and> get_top d q = get_top d None
       \<and> (\<exists>rows. body (reply (get_top d q)) = JArr (map top_entry rows)
             \<and> length rows = min 5 (length (posts d)))"
proof -
  have l: "top_limit q = 5" using assms by (simp add: top_limit_def)
  have n: "top_limit None = 5" by (simp add: top_limit_def parseInt_def)
  have e: "get_top d q = get_top d None" by (simp add: get_top_def l n)
  have "body (reply (get_top d q)) = JArr (map top_entry (Post_findAll_top d 5))"
    by (simp add: get_top_def respond_def l)
  moreover have "length (Post_findAll_top d 5) = min 5 (length (posts d))"
    by (simp add: Post_findAll_top_length)
  ultimately show ?thesis using l e by blast
qed

theorem limit_zero_is_default_witness:
  "parseInt (Some ''0'') = Some 0 \<and> top_limit (Some ''0'') = 5
   \<and> get_top sample_db (Some ''0'') = get_top sample_db None
   \<and> (\<exists>rows. body (reply (get_top sample_db (Some ''0''))) = JArr (map top_entry rows)
         \<and> length rows = 3)"
proof -
  have n: "length (posts sample_db) = 3" by (simp add: sample_db_def)
  show ?thesis
    using limit_zero_is_default [OF parseInt_zero, of sample_db] parseInt_zero by (auto simp: n)
qed

section \<open>Uniqueness of likes\<close>

lemma likes_unique_findOrCreate:
  "likes_unique d \<Longrightarrow> Like_findOrCreate d u pid = (l, created, d') \<Longrightarrow> likes_unique d'"
  unfolding Like_findOrCreate_def likes_unique_def
  by (auto simp: Let_def find_None_iff like_matches_def split: option.splits)

lemma likes_unique_destroy:
  "likes_unique d \<Longrightarrow> Like_destroy d u pid = (n, d') \<Longrightarrow> likes_unique d'"
  unfolding Like_destroy_def likes_unique_def
  by (auto simp: distinct_map_filter)

lemma likes_Post_findOrCreate:
  "Post_findOrCreate d s c = (p, created, d') \<Longrightarrow> likes d' = likes d"
  unfolding Post_findOrCreate_def by (auto simp: Let_def split: option.splits)

lemma likes_unique_handle:
  assumes "likes_unique d"
  shows "likes_unique (db_after (handle sc d r))"
proof (cases r)
  case (POST_posts s c)
  with assms show ?thesis
    using likes_Post_findOrCreate [of d "the s" "the c"]
    by (auto simp: post_posts_def respond_def likes_unique_def split: prod.splits)
next
  case (POST_like ps u)
  with assms show ?thesis
    using likes_unique_findOrCreate [of d "the u"]
    by (auto simp: post_like_def respond_def split: option.splits prod.splits)
next
  case (DELETE_like ps u)
  with assms show ?thesis
    using likes_unique_destroy [of d "the u"]
    by (auto simp: delete_like_def respond_def split: option.splits prod.splits)
next
  case (GET_likes ps)
  with assms show ?thesis by (auto simp: get_likes_def respond_def split: option.splits)
next
  case (GET_top q)
  with assms show ?thesis by (simp add: get_top_def respond_def)
next
  case (GET_liked_posts u)
  with assms show ?thesis by (auto simp: get_liked_posts_def respond_def split: option.splits)
qed

lemma likes_unique_run: "likes_unique d \<Longrightarrow> likes_unique (run sc d rs)"
  by (induction rs arbitrary: d) (simp_all add: likes_unique_handle)

text \<open>
  C7. The pair \<^verbatim>\<open>(user_id_str, PostId)\<close> is unique among the like rows of every store
  reached from the empty one by any sequence of requests, and every single request, to
  any of the six routes, keeps it unique.
\<close>

theorem likes_unique_invariant:
  "likes_unique (run sc empty_db rs)
   \<and> (likes_unique d \<longrightarrow> likes_unique (db_after (handle sc d r)))"
  using likes_unique_run [of empty_db sc rs] likes_unique_handle [of d sc r]
  by (simp add: likes_unique_def empty_db_def)

theorem likes_unique_invariant_witness:
  "likes_unique sample_db
   \<and> likes_unique (db_after (handle index_scan sample_db (POST_like ''B'' (Some ''u''))))"
proof -
  have h: "likes_unique sample_db" by (simp add: likes_unique_def sample_db_def)
  show ?thesis
    using likes_unique_invariant [of index_scan "[]" sample_db "POST_like ''B'' (Some ''u'')"] h
    by simp
qed

section \<open>Counting likes\<close>

lemma distinct_users_of_post:
  "distinct (map (\<lambda>l. (user_id_str l, PostId l)) ls) \<Longrightarrow>
   distinct (map user_id_str (filter (\<lambda>l. PostId l = k) ls))"
  by (induction ls) (auto simp: image_iff)

lemma countLikes_distinct_users:
  assumes "likes_unique d"
  shows "Post_countLikes d p = card (user_id_str ` {l \<in> set (likes d). PostId l = post_id p})"
proof -
  let ?ls = "filter (\<lambda>l. PostId l = post_id p) (likes d)"
  have "distinct (map user_id_str ?ls)"
    using assms unfolding likes_unique_def by (rule distinct_users_of_post)
  then have "card (set (map user_id_str ?ls)) = length ?ls"
    using distinct_card [of "map user_id_str ?ls"] by simp
  moreover have "set (map user_id_str ?ls) = user_id_str ` {l \<in> set (likes d). PostId l = post_id p}"
    by auto
  ultimately show ?thesis by (simp add: Post_countLikes_def)
qed

text \<open>
  C8. In a store whose like rows are unique per (user, post), the count endpoint answers
  404 for a string id no post has, and for an existing post 200 with the string id and
  the number of distinct users that have a like row on the post (0 when there is none).
\<close>

theorem count_likes_distinct_users:
  assumes "likes_unique d"
  shows "(Post_findOne d ps = None \<longrightarrow>
            get_likes d ps = respond 404 (error_json ''Post not found'') d [Call_Post_findOne])
       \<and> (\<forall>p. Post_findOne d ps = Some p \<longrightarrow>
            get_likes d ps =
              respond 200
                (JObj [(''post_str_id'', JStr ps),
                       (''like_count'',
                        JNum (int (card (user_id_str ` {l \<in> set (likes d). PostId l = post_id p}))))])
                d [Call_Post_findOne, Call_countLikes])"
proof (intro conjI allI impI)
  assume "Post_findOne d ps = None"
  then show "get_likes d ps = respond 404 (error_json ''Post not found'') d [Call_Post_findOne]"
    by (simp add: get_likes_def)
next
  fix p
  assume p: "Post_findOne d ps = Some p"
  then have "post_str_id p = ps" using Post_findOne_str by blast
  then show "get_likes d ps =
              respond 200
                (JObj [(''post_str_id'', JStr ps),
                       (''like_count'',
                        JNum (int (card (user_id_str ` {l \<in> set (likes d). PostId l = post_id p}))))])
                d [Call_Post_findOne, Call_countLikes]"
    using p countLikes_distinct_users [OF assms, of p] by (simp add: get_likes_def)
qed

theorem count_likes_distinct_users_witness:
  "get_likes sample_db ''C''
     = respond 200 (JObj [(''post_str_id'', JStr ''C''), (''like_count'', JNum 2)]) sample_db
         [Call_Post_findOne, Call_countLikes]
   \<and> get_likes sample_db ''Z''
     = respond 404 (error_json ''Post not found'') sample_db [Call_Post_findOne]"
proof -
  have u: "likes_unique sample_db" by (simp add: likes_unique_def sample_db_def)
  have c: "Post_findOne sample_db ''C'' = Some \<lparr>post_id = 3, post_str_id = ''C'', content = ''c''\<rparr>"
    by (simp add: Post_findOne_def sample_db_def)
  have z: "Post_findOne sample_db ''Z'' = None"
    by (simp add: Post_findOne_def sample_db_def)
  have "user_id_str ` {l \<in> set (likes sample_db). PostId l = 3}
          = set (map user_id_str (filter (\<lambda>l. PostId l = 3) (likes sample_db)))"
    by auto
  then have s: "card (user_id_str ` {l \<in> set (likes sample_db). PostId l = 3}) = 2"
    by (simp add: sample_db_def)
  show ?thesis
    using count_likes_distinct_users [OF u, of "''C''"] count_likes_distinct_users [OF u, of "''Z''"]
    by (simp add: c z s)
qed

section \<open>Posts liked by a user\<close>






lemma fk_ok_handle:
  assumes "fk_ok d"
  shows "fk_ok (db_after (handle sc d r))"
proof (cases r)
  case (POST_posts s c)
  with assms show ?thesis
    by (auto simp: post_posts_def respond_def fk_ok_def Post_findOrCreate_def Let_def
        split: option.splits)
next
  case (POST_like ps u)
  with assms show ?thesis
    by (auto simp: post_like_def respond_def fk_ok_def Like_findOrCreate_def Let_def
        dest: Post_findOne_str split: option.splits)
next
  case (DELETE_like ps u)
  with assms show ?thesis
    by (auto simp: delete_like_def respond_def fk_ok_def Like_destroy_def split: option.splits)
next
  case (GET_likes ps)
  with assms show ?thesis by (auto simp: get_likes_def respond_def split: option.splits)
next
  case (GET_top q)
  with assms show ?thesis by (simp add: get_top_def respond_def)
next
  case (GET_liked_posts u)
  with assms show ?thesis by (auto simp: get_liked_posts_def respond_def split: option.splits)
qed

lemma fk_ok_run: "fk_ok (run sc empty_db rs)"
proof -
  have "fk_ok d \<Longrightarrow> fk_ok (run sc d rs)" for d
    by (induction rs arbitrary: d) (simp_all add: fk_ok_handle)
  then show ?thesis by (simp add: fk_ok_def empty_db_def)
qed




end
